theory Spec2Isabelle
  imports Complex_Main "HOL-Library.Product_Lexorder"
begin

section \<open>Exceptions the scripts can raise\<close>

text \<open>
  The repository consists of three Python files: \<^verbatim>\<open>fred_key.py\<close> (credential lookup),
  \<^verbatim>\<open>fred_cpi_unemployment_linear_regression.py\<close> and \<^verbatim>\<open>fred_phillips_curve.py\<close>
  (two scripts sharing the helper \<^verbatim>\<open>fred_get\<close>). The scripts run top to bottom; a raised
  exception that nothing catches ends the run. Every raise is a value here: a function
  that can raise returns \<open>exn + 'a\<close>, with \<open>Inl\<close> the exception.

  The database, the HTTP endpoint and the third-party routines (pandas' parsers,
  scikit-learn's regression) are not part of the repository: what they answer is a
  parameter of the model.
\<close>

record observation =
  obs_date :: string
  obs_value :: string

text \<open>
  One element of the \<^verbatim>\<open>observations\<close> array of the endpoint's JSON document: the fields
  \<^verbatim>\<open>date\<close> and \<^verbatim>\<open>value\<close>, both strings. (The endpoint sends two more string fields,
  \<^verbatim>\<open>realtime_start\<close> and \<^verbatim>\<open>realtime_end\<close>, which the scripts never read.)
\<close>

record response =
  status_code :: int
  resp_text :: string
  json_observations :: "string + observation list"

text \<open>
  \<open>resp_text\<close> is \<^verbatim>\<open>resp.text\<close>; one list element stands for one character of the Python
  \<^verbatim>\<open>str\<close>, so that \<^verbatim>\<open>resp.text[:200]\<close> is \<open>take 200\<close>. \<open>json_observations\<close> is what
  \<^verbatim>\<open>resp.json()["observations"]\<close> evaluates to: \<open>Inl m\<close> when decoding or the lookup raises
  (with \<open>m\<close> the exception's text), \<open>Inr\<close> the array otherwise.
\<close>

datatype exn =
    RuntimeError string
  | HTTPError response
  | ValueError string
  | KeyError string
  | IndexError
  | LibraryError string

text \<open>
  \<open>RuntimeError m\<close>: the built-in exception with message \<open>m\<close>.
  \<open>HTTPError r\<close>: \<^verbatim>\<open>requests.HTTPError\<close> as \<^verbatim>\<open>raise_for_status\<close> builds it, holding the
  response it was raised for. \<open>ValueError s\<close>: a column conversion failed on the string \<open>s\<close>.
  \<open>KeyError k\<close>: a missing column or key \<open>k\<close>. \<open>IndexError\<close>: an index out of range.
  \<open>LibraryError m\<close>: any other exception a
  library call raised (connection errors, JSON decoding errors, ...).
\<close>

section \<open>fred\_key.py: the credential lookup\<close>

datatype sql_value = SqlNull | SqlText string

text \<open>
  What the database answers at each step of \<^verbatim>\<open>_get_fred_api_key\<close>. A step that raises
  gives \<open>Some m\<close> (or \<open>Inl m\<close>) with \<open>m\<close> the text \<^verbatim>\<open>str(exc)\<close> of the exception; all
  exceptions of pyodbc derive from \<^verbatim>\<open>Exception\<close>. \<open>fetchone_r\<close> is the row: \<open>None\<close> when
  the table is empty, else the single selected column \<^verbatim>\<open>row[0]\<close>. \<open>commit_r\<close> and
  \<open>rollback_r\<close> are what leaving the \<^verbatim>\<open>with\<close> block does to the connection, after a
  normal exit and after an exception.
\<close>

record db_run =
  connect_r :: "string option"
  cursor_r :: "string option"
  execute_r :: "string option"
  fetchone_r :: "string + sql_value option"
  commit_r :: "string option"
  rollback_r :: "string option"

definition no_key_msg :: string where
  "no_key_msg = ''No API key found in Main.fred.LKP_API_KEY.api''"

definition wrap_prefix :: string where
  "wrap_prefix = ''Could not retrieve the FRED API key from the database.'' @ [CHR 0x0A] @
     ''Original exception: ''"

text \<open>\<^verbatim>\<open>not row or not row[0]\<close>: no row, a NULL column or an empty string.\<close>

fun no_key :: "sql_value option \<Rightarrow> bool" where
  "no_key None = True"
| "no_key (Some SqlNull) = True"
| "no_key (Some (SqlText s)) = (s = [])"

text \<open>
  \<^verbatim>\<open>row[0]\<close> as it is returned; the script reads it only after the test above has
  passed, so the second equation is never reached.
\<close>

fun key_of :: "sql_value option \<Rightarrow> string" where
  "key_of (Some (SqlText s)) = s"
| "key_of _ = []"

text \<open>
  The statements inside the \<^verbatim>\<open>with\<close> block, once the connection is open: \<open>Inl m\<close> when one
  of them raises an exception whose text is \<open>m\<close>, \<open>Inr k\<close> when \<^verbatim>\<open>return row[0]\<close> is reached.
\<close>

definition with_body :: "db_run \<Rightarrow> string + string" where
  "with_body db =
     (case cursor_r db of Some m \<Rightarrow> Inl m | None \<Rightarrow>
      (case execute_r db of Some m \<Rightarrow> Inl m | None \<Rightarrow>
       (case fetchone_r db of Inl m \<Rightarrow> Inl m | Inr row \<Rightarrow>
          if no_key row then Inl no_key_msg else Inr (key_of row))))"

text \<open>
  The \<^verbatim>\<open>with\<close> statement: a failing \<^verbatim>\<open>connect\<close> raises before the block is entered; on
  the way out the connection commits (normal exit) or rolls back (exception), and an
  exception raised there replaces the block's outcome.
\<close>

definition with_connection :: "db_run \<Rightarrow> string + string" where
  "with_connection db =
     (case connect_r db of Some m \<Rightarrow> Inl m | None \<Rightarrow>
      (case with_body db of
         Inl m \<Rightarrow> (case rollback_r db of Some m' \<Rightarrow> Inl m' | None \<Rightarrow> Inl m)
       | Inr k \<Rightarrow> (case commit_r db of Some m' \<Rightarrow> Inl m' | None \<Rightarrow> Inr k)))"

text \<open>
  \<^verbatim>\<open>try: ... except Exception as exc: raise RuntimeError(...) from exc\<close>: every exception
  of the block, the \<^verbatim>\<open>RuntimeError\<close> raised for a missing key included, is caught and
  wrapped.
\<close>

definition get_fred_api_key :: "db_run \<Rightarrow> exn + string" where
  "get_fred_api_key db =
     (case with_connection db of
        Inl m \<Rightarrow> Inl (RuntimeError (wrap_prefix @ m))
      | Inr k \<Rightarrow> Inr k)"

section \<open>fred\_get: the request helper of both scripts\<close>

type_synonym params = "string \<rightharpoonup> string"

type_synonym request = "string \<times> params"

text \<open>
  A request is the URL and the query parameters handed to \<^verbatim>\<open>requests.get\<close>. The endpoint
  is a parameter \<open>http\<close>: it answers a request with a response, or \<^verbatim>\<open>requests.get\<close> itself
  raises (no connection, ...).
\<close>

datatype console = Failed string | Status int | Response string

text \<open>
  The three \<^verbatim>\<open>print\<close> calls of the \<^verbatim>\<open>except\<close> branch, each with the value it interpolates:
  the URL, \<^verbatim>\<open>resp.status_code\<close> and \<^verbatim>\<open>resp.text[:200]\<close>.
\<close>

record get_outcome =
  returned :: "exn + response"
  params_after :: params
  printed :: "console list"
  sent :: "request list"

text \<open>
  What a call of \<^verbatim>\<open>fred_get\<close> does: what it returns or raises, the caller's \<^verbatim>\<open>params\<close>
  dictionary after the call (the function assigns into it), the lines printed and the
  requests sent, in order.
\<close>

definition BASE_URL :: string where
  "BASE_URL = ''https://api.stlouisfed.org/fred/''"

text \<open>
  \<^verbatim>\<open>Response.raise_for_status\<close> of the requests library raises \<^verbatim>\<open>HTTPError\<close> for a status
  from 400 to 599 and returns for any other status (the script's comment:
  "raises for 4xx/5xx").
\<close>

definition raise_for_status :: "response \<Rightarrow> exn + unit" where
  "raise_for_status r =
     (if 400 \<le> status_code r \<and> status_code r < 600 then Inl (HTTPError r) else Inr ())"

definition fred_get ::
  "string \<Rightarrow> (request \<Rightarrow> exn + response) \<Rightarrow> string \<Rightarrow> params \<Rightarrow> get_outcome" where
  "fred_get fred_key http endpoint params =
     (let url = BASE_URL @ endpoint;
          params' = (if params ''api_key'' = None then params(''api_key'' \<mapsto> fred_key)
                     else params)
      in case http (url, params') of
           Inl e \<Rightarrow>
             \<lparr>returned = Inl e, params_after = params', printed = [], sent = [(url, params')]\<rparr>
         | Inr resp \<Rightarrow>
             (case raise_for_status resp of
                Inl exc \<Rightarrow>
                  \<lparr>returned = Inl exc, params_after = params',
                   printed = [Failed url, Status (status_code resp),
                              Response (take 200 (resp_text resp))],
                   sent = [(url, params')]\<rparr>
              | Inr _ \<Rightarrow>
                  \<lparr>returned = Inr resp, params_after = params', printed = [],
                   sent = [(url, params')]\<rparr>))"

section \<open>Loading a series\<close>

datatype 'v cell = NaN | Num 'v

text \<open>
  A float64 cell of a data frame: \<open>NaN\<close>, which is pandas' missing value, or a number.
  The type \<open>'v\<close> of the numbers is left open: no claim depends on float arithmetic.
\<close>

type_synonym ('d, 'v) table = "('d \<times> 'v cell) list"

text \<open>
  A series table: the rows of the data frame in order, each the index entry (a
  timestamp of type \<open>'d\<close>) and the cell of the column \<^verbatim>\<open>value\<close>.
\<close>

text \<open>
  Converting a column of strings element by element; the conversion raises at the first
  element the parser rejects.
\<close>

fun convert_column :: "(string \<Rightarrow> 'a option) \<Rightarrow> string list \<Rightarrow> exn + 'a list" where
  "convert_column f [] = Inr []"
| "convert_column f (s # ss) =
     (case f s of
        None \<Rightarrow> Inl (ValueError s)
      | Some a \<Rightarrow> (case convert_column f ss of Inl e \<Rightarrow> Inl e | Inr as \<Rightarrow> Inr (a # as)))"

text \<open>
  The four statements after each request, on the decoded array \<open>obs\<close>:
  \<^verbatim>\<open>
  df = pd.DataFrame(obs)
  df["date"] = pd.to_datetime(df["date"])
  df.set_index("date", inplace=True)
  df["value"] = df["value"].astype(float)
  \<close>
  A frame built from an empty array has no columns, so \<^verbatim>\<open>df["date"]\<close> raises
  \<^verbatim>\<open>KeyError\<close>. \<open>to_datetime\<close> is pandas' date parser and \<open>to_float\<close> is Python's \<^verbatim>\<open>float\<close>
  on a string, each applied to one entry of the column, \<open>None\<close> where they raise. \<^verbatim>\<open>set_index\<close> keeps the rows as they are: it neither
  sorts them nor removes a repeated date.
\<close>

definition load_series ::
  "(string \<Rightarrow> 'd option) \<Rightarrow> (string \<Rightarrow> 'v cell option) \<Rightarrow> observation list
     \<Rightarrow> exn + ('d, 'v) table" where
  "load_series to_datetime to_float obs =
     (if obs = [] then Inl (KeyError ''date'')
      else case convert_column to_datetime (map obs_date obs) of
             Inl e \<Rightarrow> Inl e
           | Inr ds \<Rightarrow>
               (case convert_column to_float (map obs_value obs) of
                  Inl e \<Rightarrow> Inl e
                | Inr vs \<Rightarrow> Inr (zip ds vs)))"

definition index_dates :: "('d, 'v) table \<Rightarrow> 'd list" where
  "index_dates t = map fst t"

definition strictly_increasing :: "'d::linorder list \<Rightarrow> bool" where
  "strictly_increasing ds = sorted_wrt (<) ds"

text \<open>
  \<open>index_dates\<close> is the index of a series table from top to bottom;
  \<open>strictly_increasing\<close> says that a list of dates ascends without a repeated date.
\<close>

section \<open>Merging two series\<close>

type_synonym ('d, 'v) merged = "('d \<times> 'v cell \<times> 'v cell) list"

text \<open>
  \<^verbatim>\<open>pd.merge(cpi_df, unemp_df, left_index=True, right_index=True, suffixes=...)\<close>: the
  inner join on the index. Every row of the left frame is paired with every row of the
  right frame that has the same index entry, in the order of the left frame.
\<close>

definition inner_join :: "('d, 'v) table \<Rightarrow> ('d, 'v) table \<Rightarrow> ('d, 'v) merged" where
  "inner_join a b =
     concat (map (\<lambda>(d, x). map (\<lambda>(d', y). (d, x, y)) (filter (\<lambda>(d', y). d' = d) b)) a)"

text \<open>\<^verbatim>\<open>.dropna()\<close>: the rows with a missing cell are removed.\<close>

definition dropna :: "('d, 'v) merged \<Rightarrow> ('d, 'v) merged" where
  "dropna m = filter (\<lambda>(d, x, y). x \<noteq> NaN \<and> y \<noteq> NaN) m"

definition merge :: "('d, 'v) table \<Rightarrow> ('d, 'v) table \<Rightarrow> ('d, 'v) merged" where
  "merge a b = dropna (inner_join a b)"




text \<open>
  \<open>dates\<close> is the set of index entries of a series table, \<open>valid_dates\<close> those that carry
  a number in some row, \<open>merged_dates\<close> the index entries of a merged table.
\<close>

section \<open>The regression\<close>

record 'v linear_model =
  lm_intercept :: "'v cell"
  lm_coef :: "'v cell list"

text \<open>
  \<^verbatim>\<open>
  X = merged_df[["CPI YoY %"]].values
  y = merged_df["Unemployment %"].values
  reg = LinearRegression()
  reg.fit(X, y)
  a = reg.intercept_
  b = reg.coef_[0]
  \<close>
  \<open>X\<close> is the one-column matrix of the predictor, \<open>y\<close> the response vector. The fitting
  routine \<open>lr\<close> is scikit-learn's \<^verbatim>\<open>LinearRegression.fit\<close>; the script puts no test of its
  own before or after the call.
\<close>

definition predictor_matrix :: "('d, 'v) merged \<Rightarrow> 'v cell list list" where
  "predictor_matrix m = map (\<lambda>(d, x, y). [x]) m"

definition response_vector :: "('d, 'v) merged \<Rightarrow> 'v cell list" where
  "response_vector m = map (\<lambda>(d, x, y). y) m"

definition regress ::
  "('v cell list list \<Rightarrow> 'v cell list \<Rightarrow> exn + 'v linear_model) \<Rightarrow> ('d, 'v) merged
     \<Rightarrow> exn + ('v cell \<times> 'v cell)" where
  "regress lr m =
     (let X = predictor_matrix m;
          y = response_vector m
      in case lr X y of
           Inl e \<Rightarrow> Inl e
         | Inr reg \<Rightarrow>
             (case lm_coef reg of [] \<Rightarrow> Inl IndexError | b # _ \<Rightarrow> Inr (lm_intercept reg, b)))"

text \<open>The number of distinct values in the predictor column of a merged table.\<close>

definition distinct_predictors :: "('d, 'v) merged \<Rightarrow> nat" where
  "distinct_predictors m = length (remdups (map (\<lambda>(d, x, y). x) m))"

section \<open>The regression script, top to bottom\<close>

record ('d, 'v) world =
  w_database :: db_run
  w_http :: "request \<Rightarrow> exn + response"
  w_to_datetime :: "string \<Rightarrow> 'd option"
  w_to_float :: "string \<Rightarrow> 'v cell option"
  w_lr :: "'v cell list list \<Rightarrow> 'v cell list \<Rightarrow> exn + 'v linear_model"

text \<open>
  Everything outside the repository that a run of
  \<^verbatim>\<open>fred_cpi_unemployment_linear_regression.py\<close> talks to: the database of the credential,
  the HTTP endpoint, pandas' two parsers and scikit-learn's fitting routine.
\<close>

definition observation_params :: "string \<Rightarrow> string \<Rightarrow> params" where
  "observation_params series_id units =
     [''series_id'' \<mapsto> series_id,
      ''observation_start'' \<mapsto> ''2000-01-01'',
      ''observation_end'' \<mapsto> ''2025-08-31'',
      ''frequency'' \<mapsto> ''m'',
      ''units'' \<mapsto> units,
      ''file_type'' \<mapsto> ''json'']"

text \<open>
  One series: the request, then \<^verbatim>\<open>resp.json()["observations"]\<close>, then the loading
  statements. The second component is the list of requests sent.
\<close>

definition pull_series ::
  "('d, 'v) world \<Rightarrow> string \<Rightarrow> string \<Rightarrow> string \<Rightarrow> (exn + ('d, 'v) table) \<times> request list" where
  "pull_series w fred_key series_id units =
     (let g = fred_get fred_key (w_http w) ''series/observations''
                (observation_params series_id units)
      in (case returned g of
            Inl e \<Rightarrow> Inl e
          | Inr resp \<Rightarrow>
              (case json_observations resp of
                 Inl m \<Rightarrow> Inl (LibraryError m)
               | Inr obs \<Rightarrow> load_series (w_to_datetime w) (w_to_float w) obs),
          sent g))"

text \<open>
  The script. \<^verbatim>\<open>from fred_key import fred_key\<close> runs \<^verbatim>\<open>_get_fred_api_key\<close> at import
  time; the \<^verbatim>\<open>except ImportError\<close> around the import does not catch its
  \<^verbatim>\<open>RuntimeError\<close>, which ends the run. Then the two series are pulled, merged and fitted.
  The result is the pair \<^verbatim>\<open>(a, b)\<close> of intercept and slope, or the exception that ended
  the run, together with the requests sent. Printing and plotting are left out.
\<close>

definition regression_script ::
  "('d, 'v) world \<Rightarrow> (exn + ('v cell \<times> 'v cell)) \<times> request list" where
  "regression_script w =
     (case get_fred_api_key (w_database w) of
        Inl e \<Rightarrow> (Inl e, [])
      | Inr fred_key \<Rightarrow>
          (case pull_series w fred_key ''CPIAUCSL'' ''pc1'' of
             (Inl e, s1) \<Rightarrow> (Inl e, s1)
           | (Inr cpi_df, s1) \<Rightarrow>
               (case pull_series w fred_key ''UNRATE'' ''lin'' of
                  (Inl e, s2) \<Rightarrow> (Inl e, s1 @ s2)
                | (Inr unemp_df, s2) \<Rightarrow> (regress (w_lr w) (merge cpi_df unemp_df), s1 @ s2))))"

section \<open>Concrete stand-ins for the library routines\<close>

text \<open>
  The theorems below hold for every parser and every fitting routine. To evaluate the
  model at a concrete payload, the following stand-ins are used. They cover the formats
  the endpoint sends (dates \<^verbatim>\<open>YYYY-MM-DD\<close>, plain decimal numerals, and \<^verbatim>\<open>.\<close> for a
  missing value) and answer \<open>None\<close> on every other string; the library routines accept
  more formats than these, which are not used here.
\<close>

definition is_digit :: "char \<Rightarrow> bool" where
  "is_digit c = (c \<in> set ''0123456789'')"

definition digit_val :: "char \<Rightarrow> nat" where
  "digit_val c = of_char c - 48"

definition digits_val :: "string \<Rightarrow> nat" where
  "digits_val s = foldl (\<lambda>n c. 10 * n + digit_val c) 0 s"

definition days_in_month :: "nat \<Rightarrow> nat \<Rightarrow> nat" where
  "days_in_month y m =
     (if m \<in> {4, 6, 9, 11} then 30
      else if m = 2 then (if y mod 4 = 0 \<and> (y mod 100 \<noteq> 0 \<or> y mod 400 = 0) then 29 else 28)
      else 31)"

text \<open>A date \<^verbatim>\<open>YYYY-MM-DD\<close> as year, month and day, ordered lexicographically.\<close>

fun iso_date :: "string \<Rightarrow> (nat \<times> nat \<times> nat) option" where
  "iso_date [y1, y2, y3, y4, s1, m1, m2, s2, d1, d2] =
     (let y = digits_val [y1, y2, y3, y4]; m = digits_val [m1, m2]; d = digits_val [d1, d2]
      in if s1 = CHR ''-'' \<and> s2 = CHR ''-'' \<and> list_all is_digit [y1, y2, y3, y4, m1, m2, d1, d2]
            \<and> 1 \<le> y \<and> 1 \<le> m \<and> m \<le> 12 \<and> 1 \<le> d \<and> d \<le> days_in_month y m
         then Some (y, m, d) else None)"
| "iso_date _ = None"

text \<open>
  An unsigned decimal numeral: digits, optionally a point and more digits, with at least
  one digit in all. A lone point, the endpoint's mark for a missing value, is no numeral:
  Python's \<^verbatim>\<open>float(".")\<close> raises \<^verbatim>\<open>ValueError\<close>.
\<close>

definition unsigned_decimal :: "string \<Rightarrow> real option" where
  "unsigned_decimal s =
     (let ip = takeWhile is_digit s; rest = dropWhile is_digit s
      in case rest of
           [] \<Rightarrow> (if ip = [] then None else Some (of_nat (digits_val ip)))
         | c # fp \<Rightarrow>
             if c = CHR ''.'' \<and> list_all is_digit fp \<and> ip @ fp \<noteq> []
             then Some (of_nat (digits_val (ip @ fp)) / 10 ^ length fp)
             else None)"

definition decimal_float :: "string \<Rightarrow> real cell option" where
  "decimal_float s =
     (if s = ''nan'' then Some NaN
      else case s of
             [] \<Rightarrow> None
           | c # t \<Rightarrow>
               if c = CHR ''-'' then map_option (\<lambda>r. Num (- r)) (unsigned_decimal t)
               else map_option Num (unsigned_decimal s))"

text \<open>
  The least-squares fit of scikit-learn's \<^verbatim>\<open>LinearRegression\<close> for one predictor, in exact
  arithmetic: the routine rejects missing cells and an empty sample, centres both
  columns and takes the least-squares solution of minimum norm, which is slope 0 when
  the centred predictor is zero throughout.
\<close>

fun numbers :: "'v cell list \<Rightarrow> 'v list option" where
  "numbers [] = Some []"
| "numbers (NaN # cs) = None"
| "numbers (Num v # cs) = map_option ((#) v) (numbers cs)"

definition mean :: "real list \<Rightarrow> real" where
  "mean xs = sum_list xs / of_nat (length xs)"

definition least_squares_exact ::
  "real cell list list \<Rightarrow> real cell list \<Rightarrow> exn + real linear_model" where
  "least_squares_exact X y =
     (case (numbers (concat X), numbers y) of
        (Some xs, Some ys) \<Rightarrow>
          if xs = [] \<or> length xs \<noteq> length ys
          then Inl (LibraryError ''ValueError'')
          else
            (let xc = map (\<lambda>x. x - mean xs) xs;
                 yc = map (\<lambda>v. v - mean ys) ys;
                 sxx = sum_list (map (\<lambda>x. x * x) xc);
                 sxy = sum_list (map (\<lambda>(x, v). x * v) (zip xc yc));
                 b = (if sxx = 0 then 0 else sxy / sxx)
             in Inr \<lparr>lm_intercept = Num (mean ys - b * mean xs), lm_coef = [Num b]\<rparr>)
      | _ \<Rightarrow> Inl (LibraryError ''ValueError''))"

text \<open>Test data: a database where every step succeeds and \<^verbatim>\<open>fetchone\<close> answers \<open>row\<close>.\<close>

definition db_with_row :: "sql_value option \<Rightarrow> db_run" where
  "db_with_row row =
     \<lparr>connect_r = None, cursor_r = None, execute_r = None, fetchone_r = Inr row,
      commit_r = None, rollback_r = None\<rparr>"

text \<open>Test data: a world with the stand-ins above, a given database and a given endpoint.\<close>

definition sample_world ::
  "db_run \<Rightarrow> (request \<Rightarrow> exn + response) \<Rightarrow> (nat \<times> nat \<times> nat, real) world" where
  "sample_world db endpoint =
     \<lparr>w_database = db, w_http = endpoint, w_to_datetime = iso_date,
      w_to_float = decimal_float, w_lr = least_squares_exact\<rparr>"

section \<open>The credential lookup\<close>


lemma with_body_no_key:
  "fetchone_r db = Inr row \<Longrightarrow> no_key row \<Longrightarrow> \<exists>m. with_body db = Inl m"
  by (simp add: with_body_def split: option.splits)

lemma with_connection_no_key:
  assumes "fetchone_r db = Inr row" and "no_key row"
  shows "\<exists>m. with_connection db = Inl m"
proof -
  from assms obtain m where "with_body db = Inl m"
    using with_body_no_key by blast
  then show ?thesis
    by (simp add: with_connection_def split: option.splits)
qed

lemma script_aborts:
  "get_fred_api_key (w_database w) = Inl e \<Longrightarrow> regression_script w = (Inl e, [])"
  by (simp add: regression_script_def)



text \<open>
  Claim C7. When no key is available (\<^verbatim>\<open>fetchone\<close> answers no row, or a row whose column
  is NULL or the empty string), the lookup fails with a \<^verbatim>\<open>RuntimeError\<close> whose message
  starts "Could not retrieve the FRED API key from the database.", and the run of the
  script ends with that error before any request has been sent.
\<close>

theorem missing_credential_aborts:
  assumes "fetchone_r (w_database w) = Inr row" and "no_key row"
  shows "\<exists>m. get_fred_api_key (w_database w) = Inl (RuntimeError (wrap_prefix @ m))
            \<and> regression_script w = (Inl (RuntimeError (wrap_prefix @ m)), [])"
proof -
  from assms obtain m where "with_connection (w_database w) = Inl m"
    using with_connection_no_key by blast
  then have "get_fred_api_key (w_database w) = Inl (RuntimeError (wrap_prefix @ m))"
    by (simp add: get_fred_api_key_def)
  then show ?thesis
    by (auto simp: script_aborts)
qed

theorem missing_credential_aborts_witness:
  "fetchone_r (w_database (sample_world (db_with_row (Some (SqlText [])))
      (\<lambda>rq. Inl (LibraryError ''offline'')))) = Inr (Some (SqlText [])) \<and>
   no_key (Some (SqlText [])) \<and>
   regression_script (sample_world (db_with_row (Some (SqlText [])))
      (\<lambda>rq. Inl (LibraryError ''offline'')))
     = (Inl (RuntimeError (wrap_prefix @ no_key_msg)), [])"
proof -
  let ?w = "sample_world (db_with_row (Some (SqlText []))) (\<lambda>rq. Inl (LibraryError ''offline''))"
  have h1: "fetchone_r (w_database ?w) = Inr (Some (SqlText []))"
    by (simp add: sample_world_def db_with_row_def)
  have h2: "no_key (Some (SqlText []))" by simp
  have key: "get_fred_api_key (w_database ?w) = Inl (RuntimeError (wrap_prefix @ no_key_msg))"
    by (simp add: sample_world_def db_with_row_def get_fred_api_key_def with_connection_def
          with_body_def)
  from missing_credential_aborts [OF h1 h2] obtain m where
    "get_fred_api_key (w_database ?w) = Inl (RuntimeError (wrap_prefix @ m))" and
    "regression_script ?w = (Inl (RuntimeError (wrap_prefix @ m)), [])"
    by blast
  with key h1 h2 show ?thesis by simp
qed

section \<open>The request helper\<close>

lemma params_after_fred_get:
  "params_after (fred_get fred_key http endpoint params) =
     (if params ''api_key'' = None then params(''api_key'' \<mapsto> fred_key) else params)"
  by (simp add: fred_get_def Let_def split: sum.splits)

lemma sent_fred_get:
  "sent (fred_get fred_key http endpoint params) =
     [(BASE_URL @ endpoint, params_after (fred_get fred_key http endpoint params))]"
  by (simp add: fred_get_def Let_def split: sum.splits)

text \<open>
  Claim C9. \<^verbatim>\<open>fred_get\<close> assigns into its caller's \<^verbatim>\<open>params\<close>. When \<^verbatim>\<open>params\<close> has no key
  \<^verbatim>\<open>"api_key"\<close>, after the call it maps \<^verbatim>\<open>"api_key"\<close> to the module's credential and every
  other key as before. When \<^verbatim>\<open>params\<close> already has the key, the dictionary is unchanged
  and it is the dictionary sent, so the caller's value goes out and the module's
  credential does not. Both hold whether the request succeeds, fails or raises.
\<close>

theorem fred_get_params_frame:
  "(params ''api_key'' = None \<longrightarrow>
      params_after (fred_get fred_key http endpoint params) ''api_key'' = Some fred_key \<and>
      (\<forall>k. k \<noteq> ''api_key'' \<longrightarrow>
         params_after (fred_get fred_key http endpoint params) k = params k)) \<and>
   (params ''api_key'' \<noteq> None \<longrightarrow>
      params_after (fred_get fred_key http endpoint params) = params \<and>
      sent (fred_get fred_key http endpoint params) = [(BASE_URL @ endpoint, params)])"
  by (simp add: sent_fred_get) (simp add: params_after_fred_get)

theorem fred_get_params_frame_witness:
  "params_after (fred_get ''KEY'' (\<lambda>rq. Inl (LibraryError ''no route''))
      ''series/observations'' [''series_id'' \<mapsto> ''UNRATE'']) ''api_key'' = Some ''KEY'' \<and>
   params_after (fred_get ''KEY'' (\<lambda>rq. Inl (LibraryError ''no route''))
      ''series/observations'' [''series_id'' \<mapsto> ''UNRATE'']) ''series_id'' = Some ''UNRATE'' \<and>
   params_after (fred_get ''KEY'' (\<lambda>rq. Inl (LibraryError ''no route''))
      ''series/observations'' [''api_key'' \<mapsto> ''MINE'']) = [''api_key'' \<mapsto> ''MINE''] \<and>
   sent (fred_get ''KEY'' (\<lambda>rq. Inl (LibraryError ''no route''))
      ''series/observations'' [''api_key'' \<mapsto> ''MINE''])
     = [(BASE_URL @ ''series/observations'', [''api_key'' \<mapsto> ''MINE''])]"
  using fred_get_params_frame [of "[''series_id'' \<mapsto> ''UNRATE'']" "''KEY''"
          "\<lambda>rq. Inl (LibraryError ''no route'')" "''series/observations''"]
        fred_get_params_frame [of "[''api_key'' \<mapsto> ''MINE'']" "''KEY''"
          "\<lambda>rq. Inl (LibraryError ''no route'')" "''series/observations''"]
  by simp

text \<open>
  Claim C4, as the code has it. The claim says that every status outside 200-299 makes
  \<^verbatim>\<open>fred_get\<close> fail; the code fails exactly for the statuses 400 to 599, those for which
  \<^verbatim>\<open>raise_for_status\<close> raises. For such a response it prints the URL, the status code
  and the first 200 characters of the body and re-raises the \<^verbatim>\<open>HTTPError\<close>, which holds
  the response. For every other status it prints nothing and returns the response
  object. In both cases one request has been sent, and no second one.
\<close>

theorem fred_get_status:
  assumes "http (BASE_URL @ endpoint, params_after (fred_get fred_key http endpoint params))
             = Inr resp"
  shows "(400 \<le> status_code resp \<and> status_code resp < 600 \<longrightarrow>
            returned (fred_get fred_key http endpoint params) = Inl (HTTPError resp) \<and>
            printed (fred_get fred_key http endpoint params) =
              [Failed (BASE_URL @ endpoint), Status (status_code resp),
               Response (take 200 (resp_text resp))] \<and>
            length (take 200 (resp_text resp)) \<le> 200) \<and>
         (\<not> (400 \<le> status_code resp \<and> status_code resp < 600) \<longrightarrow>
            returned (fred_get fred_key http endpoint params) = Inr resp \<and>
            printed (fred_get fred_key http endpoint params) = []) \<and>
         sent (fred_get fred_key http endpoint params) =
           [(BASE_URL @ endpoint, params_after (fred_get fred_key http endpoint params))]"
proof -
  let ?p = "if params ''api_key'' = None then params(''api_key'' \<mapsto> fred_key) else params"
  from assms have h: "http (BASE_URL @ endpoint, ?p) = Inr resp"
    by (simp only: params_after_fred_get)
  have r: "returned (fred_get fred_key http endpoint params) =
             (if 400 \<le> status_code resp \<and> status_code resp < 600
              then Inl (HTTPError resp) else Inr resp)"
    using h by (simp add: fred_get_def Let_def raise_for_status_def)
  have p: "printed (fred_get fred_key http endpoint params) =
             (if 400 \<le> status_code resp \<and> status_code resp < 600
              then [Failed (BASE_URL @ endpoint), Status (status_code resp),
                    Response (take 200 (resp_text resp))]
              else [])"
    using h by (simp add: fred_get_def Let_def raise_for_status_def)
  show ?thesis
    by (simp add: r p sent_fred_get)
qed

theorem fred_get_status_witness:
  "returned (fred_get ''KEY''
       (\<lambda>rq. Inr \<lparr>status_code = 404, resp_text = replicate 300 (CHR ''x''),
                    json_observations = Inl ''not JSON''\<rparr>) ''series/observations'' Map.empty)
     = Inl (HTTPError \<lparr>status_code = 404, resp_text = replicate 300 (CHR ''x''),
                    json_observations = Inl ''not JSON''\<rparr>) \<and>
   printed (fred_get ''KEY''
       (\<lambda>rq. Inr \<lparr>status_code = 404, resp_text = replicate 300 (CHR ''x''),
                    json_observations = Inl ''not JSON''\<rparr>) ''series/observations'' Map.empty)
     = [Failed (BASE_URL @ ''series/observations''), Status 404,
        Response (replicate 200 (CHR ''x''))] \<and>
   returned (fred_get ''KEY''
       (\<lambda>rq. Inr \<lparr>status_code = 200, resp_text = ''{}'',
                    json_observations = Inr []\<rparr>) ''series/observations'' Map.empty)
     = Inr \<lparr>status_code = 200, resp_text = ''{}'', json_observations = Inr []\<rparr>"
  using fred_get_status [of "\<lambda>rq. Inr \<lparr>status_code = 404,
                    resp_text = replicate 300 (CHR ''x''),
                    json_observations = Inl ''not JSON''\<rparr>" "''series/observations''"
                    "''KEY''" Map.empty
                    "\<lparr>status_code = 404, resp_text = replicate 300 (CHR ''x''),
                    json_observations = Inl ''not JSON''\<rparr>"]
        fred_get_status [of "\<lambda>rq. Inr \<lparr>status_code = 200, resp_text = ''{}'',
                    json_observations = Inr []\<rparr>" "''series/observations''" "''KEY''"
                    Map.empty
                    "\<lparr>status_code = 200, resp_text = ''{}'', json_observations = Inr []\<rparr>"]
  by simp

text \<open>
  The claim C4 as stated fails at a response with status 304, which is outside 200-299:
  \<^verbatim>\<open>raise_for_status\<close> does not raise for it and \<^verbatim>\<open>fred_get\<close> returns the response.
\<close>

theorem fred_get_304_counterexample:
  "returned (fred_get ''KEY''
       (\<lambda>rq. Inr \<lparr>status_code = 304, resp_text = [], json_observations = Inl ''empty body''\<rparr>)
       ''series/observations'' Map.empty)
     = Inr \<lparr>status_code = 304, resp_text = [], json_observations = Inl ''empty body''\<rparr>"
  by (simp add: fred_get_def Let_def raise_for_status_def)

section \<open>Loading\<close>

lemma convert_column_Inr:
  "convert_column f ss = Inr xs \<Longrightarrow> map f ss = map Some xs"
  by (induction ss arbitrary: xs) (auto split: option.splits sum.splits)

lemma convert_column_length:
  "convert_column f ss = Inr xs \<Longrightarrow> length xs = length ss"
  by (induction ss arbitrary: xs) (auto split: option.splits sum.splits)

lemma convert_column_Inl:
  "s \<in> set ss \<Longrightarrow> f s = None \<Longrightarrow>
     \<exists>s' \<in> set ss. f s' = None \<and> convert_column f ss = Inl (ValueError s')"
proof (induction ss)
  case Nil
  then show ?case by simp
next
  case (Cons a ss)
  show ?case
  proof (cases "f a")
    case None
    then show ?thesis by auto
  next
    case (Some x)
    with Cons.prems have "s \<in> set ss" by auto
    from Cons.IH [OF this Cons.prems(2)] obtain s' where
      "s' \<in> set ss" "f s' = None" "convert_column f ss = Inl (ValueError s')"
      by blast
    with Some show ?thesis by auto
  qed
qed

text \<open>
  A record whose value the float parser rejects makes the whole load raise: no table is
  produced, whatever the other records are.
\<close>

lemma load_series_unparseable_value:
  assumes "ob \<in> set obs" and "to_float (obs_value ob) = None"
  shows "\<exists>e. load_series to_datetime to_float obs = Inl e"
proof -
  have "obs_value ob \<in> set (map obs_value obs)"
    using assms by auto
  from convert_column_Inl [of "obs_value ob" "map obs_value obs" to_float, OF this assms(2)]
  obtain s where "convert_column to_float (map obs_value obs) = Inl (ValueError s)"
    by blast
  then show ?thesis
    by (auto simp: load_series_def split: sum.splits)
qed

text \<open>
  Claim C5, at a payload of three records whose second value is the endpoint's mark for
  a missing value, \<^verbatim>\<open>"."\<close>: \<^verbatim>\<open>astype(float)\<close> raises \<^verbatim>\<open>ValueError\<close> on it, so the load ends
  with that exception and the two other records are not loaded either.
\<close>

theorem load_series_sentinel_raises:
  "load_series iso_date decimal_float
     [\<lparr>obs_date = ''2000-01-01'', obs_value = ''4.0''\<rparr>,
      \<lparr>obs_date = ''2000-02-01'', obs_value = ''.''\<rparr>,
      \<lparr>obs_date = ''2000-03-01'', obs_value = ''4.0''\<rparr>]
     = Inl (ValueError ''.'')"
  by (simp add: load_series_def decimal_float_def unsigned_decimal_def is_digit_def
        digits_val_def digit_val_def days_in_month_def)

text \<open>
  Claim C8, as the code has it. The claim says that a loaded table has strictly
  increasing dates even when the records arrive unordered; the code neither sorts nor
  removes duplicates. A loaded table has one row per record, in the order of arrival:
  the index entry and the cell of row \<open>i\<close> are the parsed date and the parsed value of
  record \<open>i\<close>. So the dates of the table ascend only when those of the payload do.
\<close>

theorem load_series_keeps_order:
  assumes "load_series to_datetime to_float obs = Inr t"
  shows "map (\<lambda>ob. to_datetime (obs_date ob)) obs = map Some (index_dates t) \<and>
         map (\<lambda>ob. to_float (obs_value ob)) obs = map Some (map snd t)"
proof -
  from assms obtain ds vs where
    ds: "convert_column to_datetime (map obs_date obs) = Inr ds" and
    vs: "convert_column to_float (map obs_value obs) = Inr vs" and
    t: "t = zip ds vs"
    by (auto simp: load_series_def split: if_splits sum.splits)
  have len: "length ds = length vs"
    using convert_column_length [OF ds] convert_column_length [OF vs] by simp
  have fst_t: "index_dates t = ds" and snd_t: "map snd t = vs"
    using len by (simp_all add: t index_dates_def)
  have "map (\<lambda>ob. to_datetime (obs_date ob)) obs = map Some ds"
    using convert_column_Inr [OF ds] by (simp add: comp_def)
  moreover have "map (\<lambda>ob. to_float (obs_value ob)) obs = map Some vs"
    using convert_column_Inr [OF vs] by (simp add: comp_def)
  ultimately show ?thesis
    by (simp only: fst_t snd_t)
qed

theorem load_series_keeps_order_witness:
  "load_series iso_date decimal_float
     [\<lparr>obs_date = ''2001-05-01'', obs_value = ''3.6''\<rparr>,
      \<lparr>obs_date = ''2001-04-01'', obs_value = ''nan''\<rparr>,
      \<lparr>obs_date = ''2001-05-01'', obs_value = ''3.5''\<rparr>]
     = Inr [((2001, 5, 1), Num (36 / 10)), ((2001, 4, 1), NaN), ((2001, 5, 1), Num (35 / 10))] \<and>
   map (\<lambda>ob. iso_date (obs_date ob))
     [\<lparr>obs_date = ''2001-05-01'', obs_value = ''3.6''\<rparr>,
      \<lparr>obs_date = ''2001-04-01'', obs_value = ''nan''\<rparr>,
      \<lparr>obs_date = ''2001-05-01'', obs_value = ''3.5''\<rparr>]
     = map Some (index_dates
         [((2001, 5, 1), Num (36 / 10 :: real)), ((2001, 4, 1), NaN),
          ((2001, 5, 1), Num (35 / 10))])"
proof -
  let ?obs = "[\<lparr>obs_date = ''2001-05-01'', obs_value = ''3.6''\<rparr>,
               \<lparr>obs_date = ''2001-04-01'', obs_value = ''nan''\<rparr>,
               \<lparr>obs_date = ''2001-05-01'', obs_value = ''3.5''\<rparr>]"
  let ?t = "[((2001::nat, 5::nat, 1::nat), Num (36 / 10 :: real)), ((2001, 4, 1), NaN),
             ((2001, 5, 1), Num (35 / 10))]"
  have h: "load_series iso_date decimal_float ?obs = Inr ?t"
    by (simp add: load_series_def decimal_float_def unsigned_decimal_def is_digit_def
          digits_val_def digit_val_def days_in_month_def)
  from load_series_keeps_order [OF h] h show ?thesis
    by simp
qed

text \<open>
  The claim C8 as stated fails at a payload whose two records arrive with the later
  date first: the load succeeds and the table's dates descend.
\<close>

theorem load_series_unordered_counterexample:
  "load_series iso_date decimal_float
     [\<lparr>obs_date = ''2000-02-01'', obs_value = ''4.1''\<rparr>,
      \<lparr>obs_date = ''2000-01-01'', obs_value = ''4.0''\<rparr>]
     = Inr [((2000, 2, 1), Num (41 / 10)), ((2000, 1, 1), Num 4)] \<and>
   \<not> strictly_increasing
        (index_dates [((2000::nat, 2::nat, 1::nat), Num (41 / 10 :: real)),
                      ((2000, 1, 1), Num 4)])"
  by (simp add: load_series_def decimal_float_def unsigned_decimal_def is_digit_def
        digits_val_def digit_val_def days_in_month_def index_dates_def strictly_increasing_def)

section \<open>Merging\<close>







text \<open>
  The merged table written out: the rows of the left table from top to bottom, each
  paired with the rows of the right table of the same date from top to bottom, the pairs
  with a missing cell left out. Nothing but the two tables enters the result.
\<close>

lemma merge_explicit:
  "merge a b = [(d, x, y). (d, x) \<leftarrow> a, (d', y) \<leftarrow> b, d' = d, x \<noteq> NaN, y \<noteq> NaN]"
proof -
  have inner:
    "filter (\<lambda>(d, x, y). x \<noteq> NaN \<and> y \<noteq> NaN)
        (map (\<lambda>(d', y). (d, x, y)) (filter (\<lambda>(d', y). d' = d) b))
      = concat (map (\<lambda>(d', y). if d' = d then if x \<noteq> NaN then if y \<noteq> NaN
                                 then [(d, x, y)] else [] else [] else []) b)"
    for d :: 'a and x :: "'b cell"
    by (induction b) (simp_all split: prod.splits)
  show ?thesis
    unfolding merge_def dropna_def inner_join_def
    by (induction a) (simp_all add: inner split: prod.splits)
qed



section \<open>Fitting\<close>

text \<open>
  Claim C3, as the code has it. The claim says that a merged table with fewer than two
  distinct predictor values makes the fit fail with an \<^verbatim>\<open>InsufficientDataError\<close>; the
  script has no such test and no such exception. For every merged table, with however
  few distinct predictor values, it hands the two columns to the library's fitting
  routine: when the routine returns a model, the script takes its intercept and its
  first coefficient, and when the script fails, it is the routine that raised (or the
  routine returned a model without coefficients).
\<close>

theorem regress_no_guard:
  "(lr (predictor_matrix m) (response_vector m) = Inr reg \<and> lm_coef reg = b # bs \<longrightarrow>
      regress lr m = Inr (lm_intercept reg, b)) \<and>
   (regress lr m = Inl e \<longrightarrow>
      lr (predictor_matrix m) (response_vector m) = Inl e \<or>
      (e = IndexError \<and>
       (\<exists>reg'. lr (predictor_matrix m) (response_vector m) = Inr reg' \<and> lm_coef reg' = [])))"
  by (auto simp: regress_def Let_def split: sum.splits list.splits)

theorem regress_no_guard_witness:
  "distinct_predictors [((2000::nat, 1::nat, 1::nat), Num (2::real), Num 4)] < 2 \<and>
   regress least_squares_exact [((2000::nat, 1::nat, 1::nat), Num 2, Num 4)]
     = Inr (Num 4, Num 0) \<and>
   distinct_predictors ([] :: (nat \<times> nat \<times> nat, real) merged) < 2 \<and>
   regress least_squares_exact ([] :: (nat \<times> nat \<times> nat, real) merged)
     = Inl (LibraryError ''ValueError'') \<and>
   least_squares_exact (predictor_matrix ([] :: (nat \<times> nat \<times> nat, real) merged))
       (response_vector ([] :: (nat \<times> nat \<times> nat, real) merged))
     = Inl (LibraryError ''ValueError'')"
proof -
  let ?m = "[((2000::nat, 1::nat, 1::nat), Num (2::real), Num 4)]"
  let ?e = "[] :: (nat \<times> nat \<times> nat, real) merged"
  have fit: "least_squares_exact (predictor_matrix ?m) (response_vector ?m)
               = Inr \<lparr>lm_intercept = Num 4, lm_coef = [Num 0]\<rparr>"
    by (simp add: predictor_matrix_def response_vector_def least_squares_exact_def mean_def)
  have fails: "regress least_squares_exact ?e = Inl (LibraryError ''ValueError'')"
    by (simp add: regress_def predictor_matrix_def response_vector_def least_squares_exact_def)
  from regress_no_guard [of least_squares_exact ?m
          "\<lparr>lm_intercept = Num 4, lm_coef = [Num 0]\<rparr>" "Num 0" "[]"] fit
  have returns: "regress least_squares_exact ?m = Inr (Num 4, Num 0)"
    by simp
  from regress_no_guard [of least_squares_exact ?e _ _ _ "LibraryError ''ValueError''"] fails
  have "least_squares_exact (predictor_matrix ?e) (response_vector ?e)
          = Inl (LibraryError ''ValueError'')"
    by simp
  with returns fails show ?thesis
    by (simp add: distinct_predictors_def)
qed

text \<open>
  The claim C3 as stated fails at a merged table of two rows with the same predictor
  value: it has one distinct predictor value, and the fit returns an intercept and a
  slope.
\<close>

theorem regress_single_x_counterexample:
  "distinct_predictors
     [((2000::nat, 1::nat, 1::nat), Num (1::real), Num 5), ((2000, 2, 1), Num 1, Num 7)] = 1 \<and>
   regress least_squares_exact
     [((2000::nat, 1::nat, 1::nat), Num 1, Num 5), ((2000, 2, 1), Num 1, Num 7)]
     = Inr (Num 6, Num 0)"
  by (simp add: distinct_predictors_def regress_def predictor_matrix_def response_vector_def
        least_squares_exact_def mean_def)

end
